theory Spec2Isabelle
  imports Main "HOL-Library.Word"
begin

unbundle bit_operations_syntax

section \<open>ConnectToolCLI: the command dispatcher and its eight handlers\<close>

text \<open>
  The development embeds \<^verbatim>\<open>src/main.go\<close>. The program is a command-line client: it reads
  its positional arguments, creates a gRPC client handle for a socket path, issues one remote
  call chosen by the first argument, prints the reply and exits.

  What the process does is collected in a value: the writes to the two output streams in the
  order they happen, the requests sent to the remote service in the order they are sent, and
  the exit status. The remote service is a parameter (a test double): one function per
  remote method, from the request to either an error text or a response.
\<close>

subsection \<open>Messages of the remote service\<close>

text \<open>
  Modelled from the spec: the generated message types of the service
  (\<^verbatim>\<open>CreateLobbyResponse\<close>, \<^verbatim>\<open>LobbyMember\<close>, \<^verbatim>\<open>VPNRoute\<close> and the others, with their getters)
  are not among the source files; only their uses in \<^verbatim>\<open>main.go\<close> are. The fields below are
  the ones the handlers read, with the types the data model of the spec gives them: flags are
  booleans, identifiers and names are strings (both identifiers are printed with the verb
  \<^verbatim>\<open>%s\<close>), latency and the traffic counters are integers (printed with \<^verbatim>\<open>%d\<close>), a route's
  address is a 32-bit unsigned value, and the statistics of the VPN status are an optional
  sub-message (the handler tests it against \<^verbatim>\<open>nil\<close>).
\<close>

record CreateLobbyResponse =
  create_Success :: bool
  create_LobbyId :: string

record JoinLobbyResponse =
  join_Success :: bool
  join_Message :: string

record LeaveLobbyResponse =
  leave_Success :: bool

record LobbyMember =
  member_Name :: string
  member_SteamId :: string
  member_Ping :: int
  member_RelayInfo :: string

record GetLobbyInfoResponse =
  info_IsInLobby :: bool
  info_LobbyId :: string
  info_Members :: "LobbyMember list"

record FriendLobby =
  friend_Name :: string
  friend_SteamId :: string
  friend_LobbyId :: string

record GetFriendLobbiesResponse =
  friends_Lobbies :: "FriendLobby list"

record InviteFriendResponse =
  invite_Success :: bool

record VPNStats =
  stats_PacketsSent :: int
  stats_BytesSent :: int
  stats_PacketsReceived :: int
  stats_BytesReceived :: int
  stats_PacketsDropped :: int

record GetVPNStatusResponse =
  vpn_Enabled :: bool
  vpn_LocalIp :: string
  vpn_DeviceName :: string
  vpn_Stats :: "VPNStats option"

record VPNRoute =
  route_Ip :: "32 word"
  route_Name :: string
  route_IsLocal :: bool

record GetVPNRoutingTableResponse =
  routes_Routes :: "VPNRoute list"

text \<open>
  The request values the handlers build. Six of them are empty messages; the join request
  carries the lobby id and the invite request the friend's id.
\<close>

datatype request =
    CreateLobbyRequest
  | JoinLobbyRequest string
  | LeaveLobbyRequest
  | GetLobbyInfoRequest
  | GetFriendLobbiesRequest
  | InviteFriendRequest string
  | GetVPNStatusRequest
  | GetVPNRoutingTableRequest

text \<open>
  The context handed to every call: \<^verbatim>\<open>context.WithTimeout(context.Background(), 5*time.Second)\<close>.
  A duration is a number of nanoseconds.
\<close>

datatype Context = WithTimeout nat

definition Second :: nat where
  "Second = 1000000000"

text \<open>
  The client stub \<^verbatim>\<open>ConnectToolServiceClient\<close>: each method takes the context and the request
  and returns the error (its text, as \<^verbatim>\<open>%v\<close> prints it) or the response.
\<close>

record service =
  CreateLobby :: "Context \<Rightarrow> request \<Rightarrow> string + CreateLobbyResponse"
  JoinLobby :: "Context \<Rightarrow> request \<Rightarrow> string + JoinLobbyResponse"
  LeaveLobby :: "Context \<Rightarrow> request \<Rightarrow> string + LeaveLobbyResponse"
  GetLobbyInfo :: "Context \<Rightarrow> request \<Rightarrow> string + GetLobbyInfoResponse"
  GetFriendLobbies :: "Context \<Rightarrow> request \<Rightarrow> string + GetFriendLobbiesResponse"
  InviteFriend :: "Context \<Rightarrow> request \<Rightarrow> string + InviteFriendResponse"
  GetVPNStatus :: "Context \<Rightarrow> request \<Rightarrow> string + GetVPNStatusResponse"
  GetVPNRoutingTable :: "Context \<Rightarrow> request \<Rightarrow> string + GetVPNRoutingTableResponse"

subsection \<open>The process and its surroundings\<close>

text \<open>
  What the program reads from its surroundings: the operating system name
  (\<^verbatim>\<open>runtime.GOOS\<close>), the date and time the standard logger puts before a message, and
  \<^verbatim>\<open>grpc.NewClient\<close>, which for a target returns an error or a connection; the stub made
  from the connection is the service behind it.
\<close>

record env =
  GOOS :: string
  timestamp :: string
  NewClient :: "string \<Rightarrow> string + service"

datatype printed = Stdout string | Stderr string

text \<open>
  A handler either returns (\<open>exited = None\<close>) or ends the process with a status
  (\<^verbatim>\<open>log.Fatalf\<close> calls \<^verbatim>\<open>os.Exit(1)\<close>).
\<close>

record run =
  writes :: "printed list"
  calls :: "request list"
  exited :: "nat option"

record outcome =
  prints :: "printed list"
  requests :: "request list"
  exit_code :: nat

subsection \<open>Formatting\<close>

definition nl :: string where
  "nl = [CHR 0x0A]"

text \<open>The verb \<^verbatim>\<open>%v\<close> on a boolean.\<close>

definition fmt_bool :: "bool \<Rightarrow> string" where
  "fmt_bool b = (if b then ''true'' else ''false'')"

text \<open>The verb \<^verbatim>\<open>%d\<close>: decimal digits, most significant first, a minus sign before a
  negative value.\<close>

definition digit :: "nat \<Rightarrow> char" where
  "digit n = ''0123456789'' ! (n mod 10)"

function fmt_nat :: "nat \<Rightarrow> string" where
  "fmt_nat n = (if n < 10 then [digit n] else fmt_nat (n div 10) @ [digit n])"
  by pat_completeness auto
termination
  by (relation "measure id") auto

declare fmt_nat.simps [simp del]

definition fmt_d :: "int \<Rightarrow> string" where
  "fmt_d i = (if i < 0 then CHR ''-'' # fmt_nat (nat (- i)) else fmt_nat (nat i))"

text \<open>
  \<^verbatim>\<open>fmt.Println\<close> and \<^verbatim>\<open>fmt.Printf\<close> write to standard output; \<^verbatim>\<open>Println\<close> adds the
  newline.
\<close>

definition Println :: "string \<Rightarrow> printed" where
  "Println s = Stdout (s @ nl)"

definition Printf :: "string \<Rightarrow> printed" where
  "Printf s = Stdout s"

text \<open>
  The standard logger writes one line to standard error: date and time, a space, the
  message, and a newline unless the message already ends with one.
\<close>

definition log_line :: "env \<Rightarrow> string \<Rightarrow> printed" where
  "log_line e msg =
     Stderr (timestamp e @ '' '' @ msg @
             (if msg = [] then nl else if last msg = CHR 0x0A then [] else nl))"

text \<open>\<^verbatim>\<open>log.Fatal\<close> and \<^verbatim>\<open>log.Fatalf\<close>: the line, then \<^verbatim>\<open>os.Exit(1)\<close>.\<close>

definition Fatal :: "env \<Rightarrow> request list \<Rightarrow> string \<Rightarrow> run" where
  "Fatal e cs msg = \<lparr>writes = [log_line e msg], calls = cs, exited = Some 1\<rparr>"

subsection \<open>Usage\<close>

definition defaultSocketPath :: "env \<Rightarrow> string" where
  "defaultSocketPath e =
     (if GOOS e = ''windows'' then ''connect_tool.sock'' else ''/tmp/connect_tool.sock'')"

text \<open>
  \<^verbatim>\<open>flag.PrintDefaults\<close> for the one flag the program defines, a string flag named
  \<^verbatim>\<open>socket\<close>: it goes to standard error, with the default value in double quotes (neither
  default path has a character that quoting would escape).
\<close>

definition PrintDefaults :: "env \<Rightarrow> printed list" where
  "PrintDefaults e =
     [Stderr (''  -socket string'' @ nl @ ''    '' @ [CHR 0x09] @
              ''Path to the Unix Domain Socket'' @
              '' (default '' @ [CHR 0x22] @ defaultSocketPath e @ [CHR 0x22] @ '')'' @ nl)]"

definition printUsage :: "env \<Rightarrow> printed list" where
  "printUsage e =
     [Println ''Usage: connecttoolcli [flags] <command> [args...]'',
      Println ''Commands:'',
      Println ''  create                   Create a new lobby'',
      Println ''  join <lobby_id>          Join a lobby'',
      Println ''  leave                    Leave current lobby'',
      Println ''  info                     Get current lobby info'',
      Println ''  friends                  List friend lobbies'',
      Println ''  invite <steam_id>        Invite a friend'',
      Println ''  vpn-status               Get VPN status'',
      Println ''  vpn-routes               Get VPN routing table'',
      Println ''Flags:''] @ PrintDefaults e"

subsection \<open>The handlers\<close>

definition createLobby :: "env \<Rightarrow> Context \<Rightarrow> service \<Rightarrow> run" where
  "createLobby e ctx client =
     (case CreateLobby client ctx CreateLobbyRequest of
        Inl err \<Rightarrow> Fatal e [CreateLobbyRequest] (''could not create lobby: '' @ err)
      | Inr r \<Rightarrow>
          \<lparr>writes = [Printf (''Success: '' @ fmt_bool (create_Success r) @
                             '', Lobby ID: '' @ create_LobbyId r @ nl)],
           calls = [CreateLobbyRequest], exited = None\<rparr>)"

definition joinLobby :: "env \<Rightarrow> Context \<Rightarrow> service \<Rightarrow> string \<Rightarrow> run" where
  "joinLobby e ctx client lobbyID =
     (case JoinLobby client ctx (JoinLobbyRequest lobbyID) of
        Inl err \<Rightarrow> Fatal e [JoinLobbyRequest lobbyID] (''could not join lobby: '' @ err)
      | Inr r \<Rightarrow>
          \<lparr>writes = [Printf (''Success: '' @ fmt_bool (join_Success r) @
                             '', Message: '' @ join_Message r @ nl)],
           calls = [JoinLobbyRequest lobbyID], exited = None\<rparr>)"

definition leaveLobby :: "env \<Rightarrow> Context \<Rightarrow> service \<Rightarrow> run" where
  "leaveLobby e ctx client =
     (case LeaveLobby client ctx LeaveLobbyRequest of
        Inl err \<Rightarrow> Fatal e [LeaveLobbyRequest] (''could not leave lobby: '' @ err)
      | Inr r \<Rightarrow>
          \<lparr>writes = [Printf (''Success: '' @ fmt_bool (leave_Success r) @ nl)],
           calls = [LeaveLobbyRequest], exited = None\<rparr>)"

definition member_line :: "LobbyMember \<Rightarrow> printed" where
  "member_line m =
     Printf (''  - Name: '' @ member_Name m @ '', ID: '' @ member_SteamId m @
             '', Ping: '' @ fmt_d (member_Ping m) @
             '', Relay: '' @ member_RelayInfo m @ nl)"

definition getLobbyInfo :: "env \<Rightarrow> Context \<Rightarrow> service \<Rightarrow> run" where
  "getLobbyInfo e ctx client =
     (case GetLobbyInfo client ctx GetLobbyInfoRequest of
        Inl err \<Rightarrow> Fatal e [GetLobbyInfoRequest] (''could not get lobby info: '' @ err)
      | Inr r \<Rightarrow>
          \<lparr>writes =
             Printf (''In Lobby: '' @ fmt_bool (info_IsInLobby r) @ nl) #
             (if info_IsInLobby r
              then Printf (''Lobby ID: '' @ info_LobbyId r @ nl) #
                   Println ''Members:'' #
                   map member_line (info_Members r)
              else []),
           calls = [GetLobbyInfoRequest], exited = None\<rparr>)"

definition friend_line :: "FriendLobby \<Rightarrow> printed" where
  "friend_line l =
     Printf (''  - Friend: '' @ friend_Name l @ '' ('' @ friend_SteamId l @
             ''), Lobby: '' @ friend_LobbyId l @ nl)"

definition getFriendLobbies :: "env \<Rightarrow> Context \<Rightarrow> service \<Rightarrow> run" where
  "getFriendLobbies e ctx client =
     (case GetFriendLobbies client ctx GetFriendLobbiesRequest of
        Inl err \<Rightarrow>
          Fatal e [GetFriendLobbiesRequest] (''could not get friend lobbies: '' @ err)
      | Inr r \<Rightarrow>
          \<lparr>writes = Println ''Friend Lobbies:'' # map friend_line (friends_Lobbies r),
           calls = [GetFriendLobbiesRequest], exited = None\<rparr>)"

definition inviteFriend :: "env \<Rightarrow> Context \<Rightarrow> service \<Rightarrow> string \<Rightarrow> run" where
  "inviteFriend e ctx client friendID =
     (case InviteFriend client ctx (InviteFriendRequest friendID) of
        Inl err \<Rightarrow>
          Fatal e [InviteFriendRequest friendID] (''could not invite friend: '' @ err)
      | Inr r \<Rightarrow>
          \<lparr>writes = [Printf (''Success: '' @ fmt_bool (invite_Success r) @ nl)],
           calls = [InviteFriendRequest friendID], exited = None\<rparr>)"

definition stats_lines :: "VPNStats \<Rightarrow> printed list" where
  "stats_lines stats =
     [Println ''Stats:'',
      Printf (''  Sent: '' @ fmt_d (stats_PacketsSent stats) @ '' pkts / '' @
              fmt_d (stats_BytesSent stats) @ '' bytes'' @ nl),
      Printf (''  Recv: '' @ fmt_d (stats_PacketsReceived stats) @ '' pkts / '' @
              fmt_d (stats_BytesReceived stats) @ '' bytes'' @ nl),
      Printf (''  Dropped: '' @ fmt_d (stats_PacketsDropped stats) @ '' pkts'' @ nl)]"

definition getVPNStatus :: "env \<Rightarrow> Context \<Rightarrow> service \<Rightarrow> run" where
  "getVPNStatus e ctx client =
     (case GetVPNStatus client ctx GetVPNStatusRequest of
        Inl err \<Rightarrow> Fatal e [GetVPNStatusRequest] (''could not get VPN status: '' @ err)
      | Inr r \<Rightarrow>
          \<lparr>writes =
             Printf (''Enabled: '' @ fmt_bool (vpn_Enabled r) @ nl) #
             (if vpn_Enabled r
              then Printf (''Local IP: '' @ vpn_LocalIp r @ nl) #
                   Printf (''Device: '' @ vpn_DeviceName r @ nl) #
                   (case vpn_Stats r of
                      None \<Rightarrow> []
                    | Some stats \<Rightarrow> stats_lines stats)
              else []),
           calls = [GetVPNStatusRequest], exited = None\<rparr>)"

text \<open>The conversion \<^verbatim>\<open>byte(x)\<close> of a 32-bit value keeps its low eight bits.\<close>

definition byte :: "32 word \<Rightarrow> 8 word" where
  "byte x = ucast x"

text \<open>The local \<^verbatim>\<open>ip\<close> of the loop: \<^verbatim>\<open>Sprintf("%d.%d.%d.%d", ...)\<close> on the four bytes.\<close>

definition ip :: "32 word \<Rightarrow> string" where
  "ip v =
     fmt_d (uint (byte (drop_bit 24 v))) @ ''.'' @
     fmt_d (uint (byte (drop_bit 16 v))) @ ''.'' @
     fmt_d (uint (byte (drop_bit 8 v))) @ ''.'' @
     fmt_d (uint (byte v))"

definition route_line :: "VPNRoute \<Rightarrow> printed" where
  "route_line route =
     Printf (''  - IP: '' @ ip (route_Ip route) @ '', Name: '' @ route_Name route @
             '', Local: '' @ fmt_bool (route_IsLocal route) @ nl)"

definition getVPNRoutingTable :: "env \<Rightarrow> Context \<Rightarrow> service \<Rightarrow> run" where
  "getVPNRoutingTable e ctx client =
     (case GetVPNRoutingTable client ctx GetVPNRoutingTableRequest of
        Inl err \<Rightarrow>
          Fatal e [GetVPNRoutingTableRequest] (''could not get VPN routing table: '' @ err)
      | Inr r \<Rightarrow>
          \<lparr>writes = Println ''Routing Table:'' # map route_line (routes_Routes r),
           calls = [GetVPNRoutingTableRequest], exited = None\<rparr>)"

subsection \<open>The dispatcher\<close>

text \<open>
  \<open>main\<close> starts where \<^verbatim>\<open>flag.Parse\<close> has returned: \<open>socketPath\<close> is the value of the
  \<^verbatim>\<open>socket\<close> flag (the default when the flag was not given) and \<open>args\<close> is
  \<^verbatim>\<open>flag.Args()\<close>, the arguments after the flags. \<^verbatim>\<open>flag.Arg(i)\<close> is the empty string
  when there is no such argument.
\<close>

definition Arg :: "string list \<Rightarrow> nat \<Rightarrow> string" where
  "Arg args i = (if i < length args then args ! i else [])"

definition ctx :: Context where
  "ctx = WithTimeout (5 * Second)"

text \<open>The \<^verbatim>\<open>switch\<close> of \<open>main\<close>, its cases in the order of the source.\<close>

definition dispatch :: "env \<Rightarrow> service \<Rightarrow> string list \<Rightarrow> run" where
  "dispatch e client args =
     (let command = Arg args 0 in
      if command = ''create'' then createLobby e ctx client
      else if command = ''join'' then
        (if length args < 2 then Fatal e [] ''Usage: join <lobby_id>''
         else joinLobby e ctx client (Arg args 1))
      else if command = ''leave'' then leaveLobby e ctx client
      else if command = ''info'' then getLobbyInfo e ctx client
      else if command = ''friends'' then getFriendLobbies e ctx client
      else if command = ''invite'' then
        (if length args < 2 then Fatal e [] ''Usage: invite <steam_id>''
         else inviteFriend e ctx client (Arg args 1))
      else if command = ''vpn-status'' then getVPNStatus e ctx client
      else if command = ''vpn-routes'' then getVPNRoutingTable e ctx client
      else \<lparr>writes = Printf (''Unknown command: '' @ command @ nl) # printUsage e,
            calls = [], exited = Some 1\<rparr>)"

text \<open>A process whose \<open>main\<close> returns ends with status 0.\<close>

definition finish :: "run \<Rightarrow> outcome" where
  "finish p =
     \<lparr>prints = writes p, requests = calls p,
      exit_code = (case exited p of None \<Rightarrow> 0 | Some c \<Rightarrow> c)\<rparr>"

definition main :: "env \<Rightarrow> string \<Rightarrow> string list \<Rightarrow> outcome" where
  "main e socketPath args =
     (if length args < 1
      then \<lparr>prints = printUsage e, requests = [], exit_code = 1\<rparr>
      else
        (let target = ''unix:'' @ socketPath in
         case NewClient e target of
           Inl err \<Rightarrow> finish (Fatal e [] (''did not connect: '' @ err))
         | Inr client \<Rightarrow> finish (dispatch e client args)))"

subsection \<open>Observers and test doubles\<close>

text \<open>What reached standard output, as one string.\<close>

fun stdout_of :: "printed list \<Rightarrow> string" where
  "stdout_of [] = []"
| "stdout_of (Stdout s # ws) = s @ stdout_of ws"
| "stdout_of (Stderr s # ws) = stdout_of ws"

text \<open>
  A service that fails every call, to be updated method by method, and surroundings in
  which \<^verbatim>\<open>grpc.NewClient\<close> succeeds and leads to a given service. They are the concrete
  inputs at which the theorems below are instantiated.
\<close>

definition down :: service where
  "down =
     \<lparr>CreateLobby = (\<lambda>c q. Inl ''rpc error: code = Unavailable''),
      JoinLobby = (\<lambda>c q. Inl ''rpc error: code = Unavailable''),
      LeaveLobby = (\<lambda>c q. Inl ''rpc error: code = Unavailable''),
      GetLobbyInfo = (\<lambda>c q. Inl ''rpc error: code = Unavailable''),
      GetFriendLobbies = (\<lambda>c q. Inl ''rpc error: code = Unavailable''),
      InviteFriend = (\<lambda>c q. Inl ''rpc error: code = Unavailable''),
      GetVPNStatus = (\<lambda>c q. Inl ''rpc error: code = Unavailable''),
      GetVPNRoutingTable = (\<lambda>c q. Inl ''rpc error: code = Unavailable'')\<rparr>"

definition env_of :: "service \<Rightarrow> env" where
  "env_of svc =
     \<lparr>GOOS = ''linux'', timestamp = ''2025/01/01 00:00:00'', NewClient = (\<lambda>target. Inr svc)\<rparr>"

definition sock :: string where
  "sock = ''/tmp/connect_tool.sock''"

definition alice :: LobbyMember where
  "alice = \<lparr>member_Name = ''alice'', member_SteamId = ''76561198000000001'',
             member_Ping = 42, member_RelayInfo = ''direct''\<rparr>"

definition traffic :: VPNStats where
  "traffic = \<lparr>stats_PacketsSent = 10, stats_BytesSent = 1500, stats_PacketsReceived = 7,
               stats_BytesReceived = 900, stats_PacketsDropped = 1\<rparr>"

text \<open>
  A service that answers every call, each answer saying no: the flags are false, the
  lists are empty, while the lobby info still carries a member and the VPN status still
  carries counters.
\<close>

definition refusing :: service where
  "refusing =
     \<lparr>CreateLobby = (\<lambda>c q. Inr \<lparr>create_Success = False, create_LobbyId = []\<rparr>),
      JoinLobby = (\<lambda>c q. Inr \<lparr>join_Success = False, join_Message = ''lobby is full''\<rparr>),
      LeaveLobby = (\<lambda>c q. Inr \<lparr>leave_Success = False\<rparr>),
      GetLobbyInfo = (\<lambda>c q. Inr \<lparr>info_IsInLobby = False, info_LobbyId = ''L9'',
                                    info_Members = [alice]\<rparr>),
      GetFriendLobbies = (\<lambda>c q. Inr \<lparr>friends_Lobbies = []\<rparr>),
      InviteFriend = (\<lambda>c q. Inr \<lparr>invite_Success = False\<rparr>),
      GetVPNStatus = (\<lambda>c q. Inr \<lparr>vpn_Enabled = False, vpn_LocalIp = ''10.0.0.2'',
                                    vpn_DeviceName = ''tun0'', vpn_Stats = Some traffic\<rparr>),
      GetVPNRoutingTable = (\<lambda>c q. Inr \<lparr>routes_Routes = []\<rparr>)\<rparr>"

text \<open>A service that answers every call with yes.\<close>

definition serving :: service where
  "serving =
     \<lparr>CreateLobby = (\<lambda>c q. Inr \<lparr>create_Success = True, create_LobbyId = ''L123''\<rparr>),
      JoinLobby = (\<lambda>c q. Inr \<lparr>join_Success = True, join_Message = ''joined''\<rparr>),
      LeaveLobby = (\<lambda>c q. Inr \<lparr>leave_Success = True\<rparr>),
      GetLobbyInfo = (\<lambda>c q. Inr \<lparr>info_IsInLobby = True, info_LobbyId = ''L123'',
                                    info_Members = []\<rparr>),
      GetFriendLobbies = (\<lambda>c q. Inr \<lparr>friends_Lobbies =
         [\<lparr>friend_Name = ''bob'', friend_SteamId = ''76561198000000002'',
           friend_LobbyId = ''L77''\<rparr>]\<rparr>),
      InviteFriend = (\<lambda>c q. Inr \<lparr>invite_Success = True\<rparr>),
      GetVPNStatus = (\<lambda>c q. Inr \<lparr>vpn_Enabled = True, vpn_LocalIp = ''10.0.0.2'',
                                    vpn_DeviceName = ''tun0'', vpn_Stats = Some traffic\<rparr>),
      GetVPNRoutingTable = (\<lambda>c q. Inr \<lparr>routes_Routes =
         [\<lparr>route_Ip = 0xC0A80001, route_Name = ''eth0'', route_IsLocal = True\<rparr>,
          \<lparr>route_Ip = 0x0A000102, route_Name = ''tun0'', route_IsLocal = False\<rparr>]\<rparr>)\<rparr>"

text \<open>The same service before any traffic statistics exist.\<close>

definition serving_no_stats :: service where
  "serving_no_stats =
     serving\<lparr>GetVPNStatus := (\<lambda>c q. Inr \<lparr>vpn_Enabled = True, vpn_LocalIp = ''10.0.0.2'',
                                            vpn_DeviceName = ''tun0'', vpn_Stats = None\<rparr>)\<rparr>"

section \<open>Properties\<close>

subsection \<open>Shared facts about the dispatcher\<close>

lemma main_connected:
  "NewClient e (''unix:'' @ sp) = Inr client \<Longrightarrow>
   main e sp (c # rest) = finish (dispatch e client (c # rest))"
  by (simp add: main_def)

lemma main_not_connected:
  "NewClient e (''unix:'' @ sp) = Inl err \<Longrightarrow>
   main e sp (c # rest) = finish (Fatal e [] (''did not connect: '' @ err))"
  by (simp add: main_def)

lemma dispatch_create: "dispatch e client (''create'' # rest) = createLobby e ctx client"
  by (simp add: dispatch_def Arg_def)

lemma dispatch_join:
  "dispatch e client (''join'' # a # rest) = joinLobby e ctx client a"
  by (simp add: dispatch_def Arg_def)

lemma dispatch_join_alone:
  "dispatch e client [''join''] = Fatal e [] ''Usage: join <lobby_id>''"
  by (simp add: dispatch_def Arg_def)

lemma dispatch_leave: "dispatch e client (''leave'' # rest) = leaveLobby e ctx client"
  by (simp add: dispatch_def Arg_def)

lemma dispatch_info: "dispatch e client (''info'' # rest) = getLobbyInfo e ctx client"
  by (simp add: dispatch_def Arg_def)

lemma dispatch_friends:
  "dispatch e client (''friends'' # rest) = getFriendLobbies e ctx client"
  by (simp add: dispatch_def Arg_def)

lemma dispatch_invite:
  "dispatch e client (''invite'' # a # rest) = inviteFriend e ctx client a"
  by (simp add: dispatch_def Arg_def)

lemma dispatch_invite_alone:
  "dispatch e client [''invite''] = Fatal e [] ''Usage: invite <steam_id>''"
  by (simp add: dispatch_def Arg_def)

lemma dispatch_vpn_status:
  "dispatch e client (''vpn-status'' # rest) = getVPNStatus e ctx client"
  by (simp add: dispatch_def Arg_def)

lemma dispatch_vpn_routes:
  "dispatch e client (''vpn-routes'' # rest) = getVPNRoutingTable e ctx client"
  by (simp add: dispatch_def Arg_def)

lemma dispatch_unknown:
  assumes "c \<notin> set [''create'', ''join'', ''leave'', ''info'', ''friends'', ''invite'',
                      ''vpn-status'', ''vpn-routes'']"
  shows "dispatch e client (c # rest) =
           \<lparr>writes = Printf (''Unknown command: '' @ c @ nl) # printUsage e,
            calls = [], exited = Some 1\<rparr>"
  using assms by (simp add: dispatch_def Arg_def)

lemma finish_Fatal:
  "finish (Fatal e cs msg) = \<lparr>prints = [log_line e msg], requests = cs, exit_code = 1\<rparr>"
  by (simp add: finish_def Fatal_def)

lemma stdout_of_log_line [simp]: "stdout_of [log_line e msg] = []"
  by (simp add: log_line_def)

lemma connected [simp]: "NewClient (env_of svc) target = Inr svc"
  by (simp add: env_of_def)

lemma timestamp_env_of [simp]: "timestamp (env_of svc) = ''2025/01/01 00:00:00''"
  by (simp add: env_of_def)

lemma GOOS_env_of [simp]: "GOOS (env_of svc) = ''linux''"
  by (simp add: env_of_def)

subsection \<open>Every handler sends one request\<close>

lemma calls_createLobby: "calls (createLobby e c client) = [CreateLobbyRequest]"
  by (simp add: createLobby_def Fatal_def split: sum.split)

lemma calls_joinLobby: "calls (joinLobby e c client a) = [JoinLobbyRequest a]"
  by (simp add: joinLobby_def Fatal_def split: sum.split)

lemma calls_leaveLobby: "calls (leaveLobby e c client) = [LeaveLobbyRequest]"
  by (simp add: leaveLobby_def Fatal_def split: sum.split)

lemma calls_getLobbyInfo: "calls (getLobbyInfo e c client) = [GetLobbyInfoRequest]"
  by (simp add: getLobbyInfo_def Fatal_def split: sum.split)

lemma calls_getFriendLobbies:
  "calls (getFriendLobbies e c client) = [GetFriendLobbiesRequest]"
  by (simp add: getFriendLobbies_def Fatal_def split: sum.split)

lemma calls_inviteFriend: "calls (inviteFriend e c client a) = [InviteFriendRequest a]"
  by (simp add: inviteFriend_def Fatal_def split: sum.split)

lemma calls_getVPNStatus: "calls (getVPNStatus e c client) = [GetVPNStatusRequest]"
  by (simp add: getVPNStatus_def Fatal_def split: sum.split)

lemma calls_getVPNRoutingTable:
  "calls (getVPNRoutingTable e c client) = [GetVPNRoutingTableRequest]"
  by (simp add: getVPNRoutingTable_def Fatal_def split: sum.split)

lemmas calls_handlers =
  calls_createLobby calls_joinLobby calls_leaveLobby calls_getLobbyInfo
  calls_getFriendLobbies calls_inviteFriend calls_getVPNStatus calls_getVPNRoutingTable

lemma requests_main:
  assumes "NewClient e (''unix:'' @ sp) = Inr client"
  shows "requests (main e sp (c # a # rest)) =
           (if c = ''create'' then [CreateLobbyRequest]
            else if c = ''join'' then [JoinLobbyRequest a]
            else if c = ''leave'' then [LeaveLobbyRequest]
            else if c = ''info'' then [GetLobbyInfoRequest]
            else if c = ''friends'' then [GetFriendLobbiesRequest]
            else if c = ''invite'' then [InviteFriendRequest a]
            else if c = ''vpn-status'' then [GetVPNStatusRequest]
            else if c = ''vpn-routes'' then [GetVPNRoutingTableRequest]
            else [])"
  by (simp add: main_connected [OF assms] finish_def dispatch_def Arg_def calls_handlers)

lemma recognized_commands:
  assumes "NewClient e (''unix:'' @ sp) = Inr client"
  shows "{c. requests (main e sp (c # a # rest)) \<noteq> []} =
           set [''create'', ''join'', ''leave'', ''info'', ''friends'', ''invite'',
                ''vpn-status'', ''vpn-routes'']"
  by (auto simp add: requests_main [OF assms] split: if_splits)

lemma card_commands:
  "card (set [''create'', ''join'', ''leave'', ''info'', ''friends'', ''invite'',
              ''vpn-status'', ''vpn-routes'']) = 8"
  by simp

subsection \<open>The bytes of an address\<close>

lemma byte_low_bits: "uint (byte x) = uint (x AND 0xFF)"
proof -
  have m: "(0xFF :: 32 word) = mask 8"
    by (simp add: mask_eq_exp_minus_1)
  show ?thesis
    unfolding byte_def m
    by (simp add: unsigned_ucast_eq unsigned_take_bit_eq flip: take_bit_eq_mask)
qed

lemma ip_octets:
  "ip v = fmt_d (uint (drop_bit 24 v AND 0xFF)) @ ''.'' @
          fmt_d (uint (drop_bit 16 v AND 0xFF)) @ ''.'' @
          fmt_d (uint (drop_bit 8 v AND 0xFF)) @ ''.'' @
          fmt_d (uint (v AND 0xFF))"
  by (simp only: ip_def byte_low_bits)

section \<open>The claims\<close>

subsection \<open>C1: usage errors\<close>

text \<open>
  Claim C1 as the program has it, once \<^verbatim>\<open>flag.Parse\<close> has returned. With no command the
  process prints the usage message and exits with status 1. The usage message is twelve
  writes: on standard output the usage line, the \<^verbatim>\<open>Commands:\<close> header, one line for each
  of the eight commands \<^verbatim>\<open>create\<close>, \<^verbatim>\<open>join\<close>, \<^verbatim>\<open>leave\<close>, \<^verbatim>\<open>info\<close>, \<^verbatim>\<open>friends\<close>,
  \<^verbatim>\<open>invite\<close>, \<^verbatim>\<open>vpn-status\<close> and \<^verbatim>\<open>vpn-routes\<close>, and the \<^verbatim>\<open>Flags:\<close> header; on standard
  error the description of the flag \<^verbatim>\<open>-socket\<close> with its default path. With a command
  that is none of the eight, once the client handle exists, it prints \<^verbatim>\<open>Unknown command:\<close>
  with the command, then the same usage message, and exits with status 1. With \<^verbatim>\<open>join\<close>
  or \<^verbatim>\<open>invite\<close> and no further argument, once the client handle exists, it prints only the
  fatal line \<^verbatim>\<open>Usage: join <lobby_id>\<close> or \<^verbatim>\<open>Usage: invite <steam_id>\<close> on standard
  error. In all three situations, whether or not the client handle could be created, the
  status is 1 and no request is sent.
\<close>

theorem usage_errors:
  "main e sp [] =
     \<lparr>prints =
        [Stdout (''Usage: connecttoolcli [flags] <command> [args...]'' @ [CHR 0x0A]),
         Stdout (''Commands:'' @ [CHR 0x0A]),
         Stdout (''  create                   Create a new lobby'' @ [CHR 0x0A]),
         Stdout (''  join <lobby_id>          Join a lobby'' @ [CHR 0x0A]),
         Stdout (''  leave                    Leave current lobby'' @ [CHR 0x0A]),
         Stdout (''  info                     Get current lobby info'' @ [CHR 0x0A]),
         Stdout (''  friends                  List friend lobbies'' @ [CHR 0x0A]),
         Stdout (''  invite <steam_id>        Invite a friend'' @ [CHR 0x0A]),
         Stdout (''  vpn-status               Get VPN status'' @ [CHR 0x0A]),
         Stdout (''  vpn-routes               Get VPN routing table'' @ [CHR 0x0A]),
         Stdout (''Flags:'' @ [CHR 0x0A]),
         Stderr (''  -socket string'' @ [CHR 0x0A] @ ''    '' @ [CHR 0x09] @
                 ''Path to the Unix Domain Socket (default '' @ [CHR 0x22] @
                 (if GOOS e = ''windows'' then ''connect_tool.sock''
                  else ''/tmp/connect_tool.sock'') @
                 [CHR 0x22] @ '')'' @ [CHR 0x0A])],
      requests = [], exit_code = 1\<rparr>
   \<and> (c \<notin> set [''create'', ''join'', ''leave'', ''info'', ''friends'', ''invite'',
                   ''vpn-status'', ''vpn-routes''] \<longrightarrow>
        exit_code (main e sp (c # rest)) = 1 \<and> requests (main e sp (c # rest)) = [] \<and>
        (NewClient e (''unix:'' @ sp) = Inr client \<longrightarrow>
           prints (main e sp (c # rest)) =
             Stdout (''Unknown command: '' @ c @ [CHR 0x0A]) # prints (main e sp [])))
   \<and> exit_code (main e sp [''join'']) = 1 \<and> requests (main e sp [''join'']) = []
   \<and> (NewClient e (''unix:'' @ sp) = Inr client \<longrightarrow>
          prints (main e sp [''join'']) =
            [Stderr (timestamp e @ '' Usage: join <lobby_id>'' @ [CHR 0x0A])])
   \<and> exit_code (main e sp [''invite'']) = 1 \<and> requests (main e sp [''invite'']) = []
   \<and> (NewClient e (''unix:'' @ sp) = Inr client \<longrightarrow>
          prints (main e sp [''invite'']) =
            [Stderr (timestamp e @ '' Usage: invite <steam_id>'' @ [CHR 0x0A])])"
proof -
  have usage: "prints (main e sp []) = printUsage e"
    by (simp add: main_def)
  have none: "main e sp [] =
     \<lparr>prints =
        [Stdout (''Usage: connecttoolcli [flags] <command> [args...]'' @ [CHR 0x0A]),
         Stdout (''Commands:'' @ [CHR 0x0A]),
         Stdout (''  create                   Create a new lobby'' @ [CHR 0x0A]),
         Stdout (''  join <lobby_id>          Join a lobby'' @ [CHR 0x0A]),
         Stdout (''  leave                    Leave current lobby'' @ [CHR 0x0A]),
         Stdout (''  info                     Get current lobby info'' @ [CHR 0x0A]),
         Stdout (''  friends                  List friend lobbies'' @ [CHR 0x0A]),
         Stdout (''  invite <steam_id>        Invite a friend'' @ [CHR 0x0A]),
         Stdout (''  vpn-status               Get VPN status'' @ [CHR 0x0A]),
         Stdout (''  vpn-routes               Get VPN routing table'' @ [CHR 0x0A]),
         Stdout (''Flags:'' @ [CHR 0x0A]),
         Stderr (''  -socket string'' @ [CHR 0x0A] @ ''    '' @ [CHR 0x09] @
                 ''Path to the Unix Domain Socket (default '' @ [CHR 0x22] @
                 (if GOOS e = ''windows'' then ''connect_tool.sock''
                  else ''/tmp/connect_tool.sock'') @
                 [CHR 0x22] @ '')'' @ [CHR 0x0A])],
      requests = [], exit_code = 1\<rparr>"
    by (simp add: main_def printUsage_def PrintDefaults_def defaultSocketPath_def
        Println_def nl_def)
  have unknown:
    "exit_code (main e sp (c # rest)) = 1 \<and> requests (main e sp (c # rest)) = [] \<and>
     (NewClient e (''unix:'' @ sp) = Inr client \<longrightarrow>
        prints (main e sp (c # rest)) =
          Stdout (''Unknown command: '' @ c @ [CHR 0x0A]) # prints (main e sp []))"
    if "c \<notin> set [''create'', ''join'', ''leave'', ''info'', ''friends'', ''invite'',
                    ''vpn-status'', ''vpn-routes'']"
  proof (cases "NewClient e (''unix:'' @ sp)")
    case (Inl err)
    then show ?thesis
      by (simp add: main_not_connected finish_Fatal)
  next
    case (Inr cl)
    then show ?thesis
      by (simp add: usage main_connected dispatch_unknown [OF that] finish_def Printf_def
          nl_def)
  qed
  have join:
    "exit_code (main e sp [''join'']) = 1 \<and> requests (main e sp [''join'']) = []
     \<and> (NewClient e (''unix:'' @ sp) = Inr client \<longrightarrow>
          prints (main e sp [''join'']) =
            [Stderr (timestamp e @ '' Usage: join <lobby_id>'' @ [CHR 0x0A])])"
  proof (cases "NewClient e (''unix:'' @ sp)")
    case (Inl err)
    then show ?thesis
      by (simp add: main_not_connected finish_Fatal)
  next
    case (Inr cl)
    then show ?thesis
      by (simp add: main_connected dispatch_join_alone finish_Fatal log_line_def nl_def)
  qed
  have invite:
    "exit_code (main e sp [''invite'']) = 1 \<and> requests (main e sp [''invite'']) = []
     \<and> (NewClient e (''unix:'' @ sp) = Inr client \<longrightarrow>
          prints (main e sp [''invite'']) =
            [Stderr (timestamp e @ '' Usage: invite <steam_id>'' @ [CHR 0x0A])])"
  proof (cases "NewClient e (''unix:'' @ sp)")
    case (Inl err)
    then show ?thesis
      by (simp add: main_not_connected finish_Fatal)
  next
    case (Inr cl)
    then show ?thesis
      by (simp add: main_connected dispatch_invite_alone finish_Fatal log_line_def nl_def)
  qed
  from none unknown join invite show ?thesis by blast
qed

text \<open>
  C1 at concrete inputs: the command \<^verbatim>\<open>bogus\<close>, and \<^verbatim>\<open>invite\<close> alone, against a service
  that is down, on a host that is not Windows.
\<close>

theorem usage_errors_witness:
  "prints (main (env_of down) sock [''bogus'']) =
     [Stdout (''Unknown command: bogus'' @ [CHR 0x0A]),
      Stdout (''Usage: connecttoolcli [flags] <command> [args...]'' @ [CHR 0x0A]),
      Stdout (''Commands:'' @ [CHR 0x0A]),
      Stdout (''  create                   Create a new lobby'' @ [CHR 0x0A]),
      Stdout (''  join <lobby_id>          Join a lobby'' @ [CHR 0x0A]),
      Stdout (''  leave                    Leave current lobby'' @ [CHR 0x0A]),
      Stdout (''  info                     Get current lobby info'' @ [CHR 0x0A]),
      Stdout (''  friends                  List friend lobbies'' @ [CHR 0x0A]),
      Stdout (''  invite <steam_id>        Invite a friend'' @ [CHR 0x0A]),
      Stdout (''  vpn-status               Get VPN status'' @ [CHR 0x0A]),
      Stdout (''  vpn-routes               Get VPN routing table'' @ [CHR 0x0A]),
      Stdout (''Flags:'' @ [CHR 0x0A]),
      Stderr (''  -socket string'' @ [CHR 0x0A] @ ''    '' @ [CHR 0x09] @
              ''Path to the Unix Domain Socket (default '' @ [CHR 0x22] @
              ''/tmp/connect_tool.sock'' @ [CHR 0x22] @ '')'' @ [CHR 0x0A])]
   \<and> exit_code (main (env_of down) sock [''bogus'']) = 1
   \<and> requests (main (env_of down) sock [''bogus'']) = []
   \<and> prints (main (env_of down) sock [''invite'']) =
       [Stderr (''2025/01/01 00:00:00 Usage: invite <steam_id>'' @ [CHR 0x0A])]
   \<and> exit_code (main (env_of down) sock [''invite'']) = 1
   \<and> requests (main (env_of down) sock [''invite'']) = []"
  using usage_errors [of "env_of down" sock "''bogus''" "[]" down]
  by simp

text \<open>
  C1 as stated fails for \<^verbatim>\<open>join\<close> without its argument: all that is printed is one line
  on standard error, nothing reaches standard output, and none of the twelve writes of the
  usage message is among the output.
\<close>

theorem join_without_argument_counterexample:
  "prints (main (env_of down) sock [''join'']) =
     [Stderr (''2025/01/01 00:00:00 Usage: join <lobby_id>'' @ [CHR 0x0A])]
   \<and> stdout_of (prints (main (env_of down) sock [''join''])) = []
   \<and> list_all (\<lambda>w. w \<notin> set (prints (main (env_of down) sock [''join''])))
        [Stdout (''Usage: connecttoolcli [flags] <command> [args...]'' @ [CHR 0x0A]),
         Stdout (''Commands:'' @ [CHR 0x0A]),
         Stdout (''  create                   Create a new lobby'' @ [CHR 0x0A]),
         Stdout (''  join <lobby_id>          Join a lobby'' @ [CHR 0x0A]),
         Stdout (''  leave                    Leave current lobby'' @ [CHR 0x0A]),
         Stdout (''  info                     Get current lobby info'' @ [CHR 0x0A]),
         Stdout (''  friends                  List friend lobbies'' @ [CHR 0x0A]),
         Stdout (''  invite <steam_id>        Invite a friend'' @ [CHR 0x0A]),
         Stdout (''  vpn-status               Get VPN status'' @ [CHR 0x0A]),
         Stdout (''  vpn-routes               Get VPN routing table'' @ [CHR 0x0A]),
         Stdout (''Flags:'' @ [CHR 0x0A]),
         Stderr (''  -socket string'' @ [CHR 0x0A] @ ''    '' @ [CHR 0x09] @
                 ''Path to the Unix Domain Socket (default '' @ [CHR 0x22] @
                 ''/tmp/connect_tool.sock'' @ [CHR 0x22] @ '')'' @ [CHR 0x0A])]"
proof -
  have p: "prints (main (env_of down) sock [''join'']) =
     [Stderr (''2025/01/01 00:00:00 Usage: join <lobby_id>'' @ [CHR 0x0A])]"
    by (simp add: main_connected [OF connected] dispatch_join_alone finish_Fatal
        log_line_def nl_def)
  show ?thesis
    by (simp add: p)
qed

subsection \<open>C2: the routing table\<close>

text \<open>
  Claim C2. The handler of \<^verbatim>\<open>vpn-routes\<close> prints the header line and then one line for
  each route, in the order of the response, with the address in dotted-quad form, the
  interface name and the is-local flag. The address text is the decimal rendering of the four
  octets \<open>(v >> 24) & 0xFF\<close>, \<open>(v >> 16) & 0xFF\<close>, \<open>(v >> 8) & 0xFF\<close> and \<open>v & 0xFF\<close>,
  a function of the value alone; \<open>0xC0A80001\<close> gives \<^verbatim>\<open>192.168.0.1\<close>, \<open>0\<close> gives
  \<^verbatim>\<open>0.0.0.0\<close> and \<open>0xFFFFFFFF\<close> gives \<^verbatim>\<open>255.255.255.255\<close>.
\<close>

theorem vpn_routes_rendering:
  assumes "NewClient e (''unix:'' @ sp) = Inr client"
    and "GetVPNRoutingTable client ctx GetVPNRoutingTableRequest = Inr r"
  shows "prints (main e sp (''vpn-routes'' # rest)) =
           Stdout (''Routing Table:'' @ [CHR 0x0A]) #
           map (\<lambda>route.
                  Stdout (''  - IP: '' @ ip (route_Ip route) @
                          '', Name: '' @ route_Name route @
                          '', Local: '' @
                          (if route_IsLocal route then ''true'' else ''false'') @
                          [CHR 0x0A]))
               (routes_Routes r)
       \<and> ip v = fmt_d (uint (drop_bit 24 v AND 0xFF)) @ ''.'' @
                 fmt_d (uint (drop_bit 16 v AND 0xFF)) @ ''.'' @
                 fmt_d (uint (drop_bit 8 v AND 0xFF)) @ ''.'' @
                 fmt_d (uint (v AND 0xFF))
       \<and> ip 0xC0A80001 = ''192.168.0.1''
       \<and> ip 0x00000000 = ''0.0.0.0''
       \<and> ip 0xFFFFFFFF = ''255.255.255.255''"
proof -
  have "prints (main e sp (''vpn-routes'' # rest)) =
           Stdout (''Routing Table:'' @ [CHR 0x0A]) #
           map (\<lambda>route.
                  Stdout (''  - IP: '' @ ip (route_Ip route) @
                          '', Name: '' @ route_Name route @
                          '', Local: '' @
                          (if route_IsLocal route then ''true'' else ''false'') @
                          [CHR 0x0A]))
               (routes_Routes r)"
    using assms
    by (simp add: main_connected dispatch_vpn_routes getVPNRoutingTable_def finish_def
        Println_def Printf_def route_line_def fmt_bool_def nl_def)
  moreover have "ip 0xC0A80001 = ''192.168.0.1''" by code_simp
  moreover have "ip 0x00000000 = ''0.0.0.0''" by code_simp
  moreover have "ip 0xFFFFFFFF = ''255.255.255.255''" by code_simp
  ultimately show ?thesis using ip_octets by blast
qed

text \<open>C2 at a response with two routes.\<close>

theorem vpn_routes_rendering_witness:
  "prints (main (env_of serving) sock [''vpn-routes'']) =
     [Stdout (''Routing Table:'' @ [CHR 0x0A]),
      Stdout (''  - IP: 192.168.0.1, Name: eth0, Local: true'' @ [CHR 0x0A]),
      Stdout (''  - IP: 10.0.1.2, Name: tun0, Local: false'' @ [CHR 0x0A])]"
proof -
  have r: "GetVPNRoutingTable serving ctx GetVPNRoutingTableRequest =
             Inr \<lparr>routes_Routes =
               [\<lparr>route_Ip = 0xC0A80001, route_Name = ''eth0'', route_IsLocal = True\<rparr>,
                \<lparr>route_Ip = 0x0A000102, route_Name = ''tun0'', route_IsLocal = False\<rparr>]\<rparr>"
    by (simp add: serving_def)
  have a: "ip 0x0A000102 = ''10.0.1.2''" by code_simp
  have b: "ip 0xC0A80001 = ''192.168.0.1''" by code_simp
  from vpn_routes_rendering [OF connected r, of sock "[]" 0] a b show ?thesis
    by simp
qed

subsection \<open>C3: creating a lobby\<close>

text \<open>
  Claim C3. When the service answers the create request with success and the lobby id
  \<^verbatim>\<open>L123\<close>, the process prints exactly the line \<^verbatim>\<open>Success: true, Lobby ID: L123\<close> with its
  newline, nothing else, and exits with status 0.
\<close>

theorem create_end_to_end:
  assumes "NewClient e (''unix:'' @ sp) = Inr client"
    and "CreateLobby client ctx CreateLobbyRequest =
           Inr \<lparr>create_Success = True, create_LobbyId = ''L123''\<rparr>"
  shows "prints (main e sp (''create'' # rest)) =
           [Stdout (''Success: true, Lobby ID: L123'' @ [CHR 0x0A])]
       \<and> stdout_of (prints (main e sp (''create'' # rest))) =
           ''Success: true, Lobby ID: L123'' @ [CHR 0x0A]
       \<and> exit_code (main e sp (''create'' # rest)) = 0"
  using assms
  by (simp add: main_connected dispatch_create createLobby_def finish_def Printf_def
      fmt_bool_def nl_def)

text \<open>C3 at the service that answers yes.\<close>

theorem create_end_to_end_witness:
  "prints (main (env_of serving) sock [''create'']) =
     [Stdout (''Success: true, Lobby ID: L123'' @ [CHR 0x0A])]
   \<and> exit_code (main (env_of serving) sock [''create'']) = 0"
proof -
  have r: "CreateLobby serving ctx CreateLobbyRequest =
             Inr \<lparr>create_Success = True, create_LobbyId = ''L123''\<rparr>"
    by (simp add: serving_def)
  from create_end_to_end [OF connected r, of sock "[]"] show ?thesis
    by simp
qed

subsection \<open>C4: lobby info\<close>

text \<open>
  Claim C4. When the response says the caller is not in a lobby, the only output is the
  line \<^verbatim>\<open>In Lobby: false\<close>: no lobby id and no member line, whatever members the response
  carries. When it says the caller is in a lobby and the member list is empty, the output
  is the \<^verbatim>\<open>In Lobby: true\<close> line, the lobby id line and the \<^verbatim>\<open>Members:\<close> header, and no
  member line.
\<close>

theorem info_rendering:
  assumes "NewClient e (''unix:'' @ sp) = Inr client"
    and "GetLobbyInfo client ctx GetLobbyInfoRequest = Inr r"
  shows "(\<not> info_IsInLobby r \<longrightarrow>
            prints (main e sp (''info'' # rest)) =
              [Stdout (''In Lobby: false'' @ [CHR 0x0A])])
       \<and> (info_IsInLobby r \<and> info_Members r = [] \<longrightarrow>
            prints (main e sp (''info'' # rest)) =
              [Stdout (''In Lobby: true'' @ [CHR 0x0A]),
               Stdout (''Lobby ID: '' @ info_LobbyId r @ [CHR 0x0A]),
               Stdout (''Members:'' @ [CHR 0x0A])])"
  using assms
  by (simp add: main_connected dispatch_info getLobbyInfo_def finish_def Println_def
      Printf_def fmt_bool_def nl_def)

text \<open>
  C4 at a response that is not in a lobby and still names a member, and at one that is in
  lobby \<^verbatim>\<open>L123\<close> with no members.
\<close>

theorem info_rendering_witness:
  "prints (main (env_of refusing) sock [''info'']) =
     [Stdout (''In Lobby: false'' @ [CHR 0x0A])]
   \<and> prints (main (env_of serving) sock [''info'']) =
       [Stdout (''In Lobby: true'' @ [CHR 0x0A]),
        Stdout (''Lobby ID: L123'' @ [CHR 0x0A]),
        Stdout (''Members:'' @ [CHR 0x0A])]"
proof -
  have r: "GetLobbyInfo refusing ctx GetLobbyInfoRequest =
             Inr \<lparr>info_IsInLobby = False, info_LobbyId = ''L9'', info_Members = [alice]\<rparr>"
    by (simp add: refusing_def)
  have s: "GetLobbyInfo serving ctx GetLobbyInfoRequest =
             Inr \<lparr>info_IsInLobby = True, info_LobbyId = ''L123'', info_Members = []\<rparr>"
    by (simp add: serving_def)
  from info_rendering [OF connected r, of sock "[]"]
       info_rendering [OF connected s, of sock "[]"]
  show ?thesis by simp
qed

subsection \<open>C5: VPN status\<close>

text \<open>
  Claim C5. When the response says the VPN is not enabled, the only output is the line
  \<^verbatim>\<open>Enabled: false\<close>: no local address, no device name and no statistics, whatever the
  response carries. When it is enabled, the local address and the device name are printed,
  and the four statistics lines follow exactly when the response has a statistics payload.
\<close>

theorem vpn_status_rendering:
  assumes "NewClient e (''unix:'' @ sp) = Inr client"
    and "GetVPNStatus client ctx GetVPNStatusRequest = Inr r"
  shows "(\<not> vpn_Enabled r \<longrightarrow>
            prints (main e sp (''vpn-status'' # rest)) =
              [Stdout (''Enabled: false'' @ [CHR 0x0A])])
       \<and> (vpn_Enabled r \<longrightarrow>
            prints (main e sp (''vpn-status'' # rest)) =
              [Stdout (''Enabled: true'' @ [CHR 0x0A]),
               Stdout (''Local IP: '' @ vpn_LocalIp r @ [CHR 0x0A]),
               Stdout (''Device: '' @ vpn_DeviceName r @ [CHR 0x0A])] @
              (case vpn_Stats r of
                 None \<Rightarrow> []
               | Some s \<Rightarrow>
                   [Stdout (''Stats:'' @ [CHR 0x0A]),
                    Stdout (''  Sent: '' @ fmt_d (stats_PacketsSent s) @ '' pkts / '' @
                            fmt_d (stats_BytesSent s) @ '' bytes'' @ [CHR 0x0A]),
                    Stdout (''  Recv: '' @ fmt_d (stats_PacketsReceived s) @ '' pkts / '' @
                            fmt_d (stats_BytesReceived s) @ '' bytes'' @ [CHR 0x0A]),
                    Stdout (''  Dropped: '' @ fmt_d (stats_PacketsDropped s) @ '' pkts'' @
                            [CHR 0x0A])]))"
  using assms
  by (simp add: main_connected dispatch_vpn_status getVPNStatus_def finish_def Println_def
      Printf_def fmt_bool_def nl_def stats_lines_def split: option.split)

text \<open>
  C5 at three responses: disabled with nonzero counters, enabled with counters, enabled
  without a statistics payload.
\<close>

theorem vpn_status_rendering_witness:
  "prints (main (env_of refusing) sock [''vpn-status'']) =
     [Stdout (''Enabled: false'' @ [CHR 0x0A])]
   \<and> prints (main (env_of serving) sock [''vpn-status'']) =
       [Stdout (''Enabled: true'' @ [CHR 0x0A]),
        Stdout (''Local IP: 10.0.0.2'' @ [CHR 0x0A]),
        Stdout (''Device: tun0'' @ [CHR 0x0A]),
        Stdout (''Stats:'' @ [CHR 0x0A]),
        Stdout (''  Sent: 10 pkts / 1500 bytes'' @ [CHR 0x0A]),
        Stdout (''  Recv: 7 pkts / 900 bytes'' @ [CHR 0x0A]),
        Stdout (''  Dropped: 1 pkts'' @ [CHR 0x0A])]
   \<and> prints (main (env_of serving_no_stats) sock [''vpn-status'']) =
       [Stdout (''Enabled: true'' @ [CHR 0x0A]),
        Stdout (''Local IP: 10.0.0.2'' @ [CHR 0x0A]),
        Stdout (''Device: tun0'' @ [CHR 0x0A])]"
proof -
  have r: "GetVPNStatus refusing ctx GetVPNStatusRequest =
             Inr \<lparr>vpn_Enabled = False, vpn_LocalIp = ''10.0.0.2'', vpn_DeviceName = ''tun0'',
                  vpn_Stats = Some traffic\<rparr>"
    by (simp add: refusing_def)
  have s: "GetVPNStatus serving ctx GetVPNStatusRequest =
             Inr \<lparr>vpn_Enabled = True, vpn_LocalIp = ''10.0.0.2'', vpn_DeviceName = ''tun0'',
                  vpn_Stats = Some traffic\<rparr>"
    by (simp add: serving_def)
  have t: "GetVPNStatus serving_no_stats ctx GetVPNStatusRequest =
             Inr \<lparr>vpn_Enabled = True, vpn_LocalIp = ''10.0.0.2'', vpn_DeviceName = ''tun0'',
                  vpn_Stats = None\<rparr>"
    by (simp add: serving_no_stats_def)
  have d: "fmt_d 10 = ''10''" "fmt_d 1500 = ''1500''" "fmt_d 7 = ''7''"
    "fmt_d 900 = ''900''" "fmt_d 1 = ''1''"
    by code_simp+
  from vpn_status_rendering [OF connected r, of sock "[]"]
       vpn_status_rendering [OF connected s, of sock "[]"]
       vpn_status_rendering [OF connected t, of sock "[]"]
  show ?thesis by (simp add: traffic_def d)
qed

subsection \<open>C6: a failed call is fatal\<close>

text \<open>
  Claim C6. For each of the eight handlers: when the remote call returns an error, the
  process sends no second request, prints one line through the fatal logger, which names
  the operation and carries the error text, and exits with status 1. The line goes to
  standard error; nothing is written to standard output.
\<close>

theorem remote_error_is_fatal:
  assumes "NewClient e (''unix:'' @ sp) = Inr client"
  shows "(CreateLobby client ctx CreateLobbyRequest = Inl err \<longrightarrow>
            main e sp (''create'' # rest) =
              \<lparr>prints = [log_line e (''could not create lobby: '' @ err)],
               requests = [CreateLobbyRequest], exit_code = 1\<rparr>)
       \<and> (JoinLobby client ctx (JoinLobbyRequest a) = Inl err \<longrightarrow>
            main e sp (''join'' # a # rest) =
              \<lparr>prints = [log_line e (''could not join lobby: '' @ err)],
               requests = [JoinLobbyRequest a], exit_code = 1\<rparr>)
       \<and> (LeaveLobby client ctx LeaveLobbyRequest = Inl err \<longrightarrow>
            main e sp (''leave'' # rest) =
              \<lparr>prints = [log_line e (''could not leave lobby: '' @ err)],
               requests = [LeaveLobbyRequest], exit_code = 1\<rparr>)
       \<and> (GetLobbyInfo client ctx GetLobbyInfoRequest = Inl err \<longrightarrow>
            main e sp (''info'' # rest) =
              \<lparr>prints = [log_line e (''could not get lobby info: '' @ err)],
               requests = [GetLobbyInfoRequest], exit_code = 1\<rparr>)
       \<and> (GetFriendLobbies client ctx GetFriendLobbiesRequest = Inl err \<longrightarrow>
            main e sp (''friends'' # rest) =
              \<lparr>prints = [log_line e (''could not get friend lobbies: '' @ err)],
               requests = [GetFriendLobbiesRequest], exit_code = 1\<rparr>)
       \<and> (InviteFriend client ctx (InviteFriendRequest a) = Inl err \<longrightarrow>
            main e sp (''invite'' # a # rest) =
              \<lparr>prints = [log_line e (''could not invite friend: '' @ err)],
               requests = [InviteFriendRequest a], exit_code = 1\<rparr>)
       \<and> (GetVPNStatus client ctx GetVPNStatusRequest = Inl err \<longrightarrow>
            main e sp (''vpn-status'' # rest) =
              \<lparr>prints = [log_line e (''could not get VPN status: '' @ err)],
               requests = [GetVPNStatusRequest], exit_code = 1\<rparr>)
       \<and> (GetVPNRoutingTable client ctx GetVPNRoutingTableRequest = Inl err \<longrightarrow>
            main e sp (''vpn-routes'' # rest) =
              \<lparr>prints = [log_line e (''could not get VPN routing table: '' @ err)],
               requests = [GetVPNRoutingTableRequest], exit_code = 1\<rparr>)
       \<and> stdout_of [log_line e msg] = []
       \<and> (\<exists>s. log_line e msg = Stderr (timestamp e @ '' '' @ msg @ s))"
proof -
  note m = main_connected [OF assms]
  have "CreateLobby client ctx CreateLobbyRequest = Inl err \<longrightarrow>
            main e sp (''create'' # rest) =
              \<lparr>prints = [log_line e (''could not create lobby: '' @ err)],
               requests = [CreateLobbyRequest], exit_code = 1\<rparr>"
    by (simp add: m dispatch_create createLobby_def finish_Fatal)
  moreover have "JoinLobby client ctx (JoinLobbyRequest a) = Inl err \<longrightarrow>
            main e sp (''join'' # a # rest) =
              \<lparr>prints = [log_line e (''could not join lobby: '' @ err)],
               requests = [JoinLobbyRequest a], exit_code = 1\<rparr>"
    by (simp add: m dispatch_join joinLobby_def finish_Fatal)
  moreover have "LeaveLobby client ctx LeaveLobbyRequest = Inl err \<longrightarrow>
            main e sp (''leave'' # rest) =
              \<lparr>prints = [log_line e (''could not leave lobby: '' @ err)],
               requests = [LeaveLobbyRequest], exit_code = 1\<rparr>"
    by (simp add: m dispatch_leave leaveLobby_def finish_Fatal)
  moreover have "GetLobbyInfo client ctx GetLobbyInfoRequest = Inl err \<longrightarrow>
            main e sp (''info'' # rest) =
              \<lparr>prints = [log_line e (''could not get lobby info: '' @ err)],
               requests = [GetLobbyInfoRequest], exit_code = 1\<rparr>"
    by (simp add: m dispatch_info getLobbyInfo_def finish_Fatal)
  moreover have "GetFriendLobbies client ctx GetFriendLobbiesRequest = Inl err \<longrightarrow>
            main e sp (''friends'' # rest) =
              \<lparr>prints = [log_line e (''could not get friend lobbies: '' @ err)],
               requests = [GetFriendLobbiesRequest], exit_code = 1\<rparr>"
    by (simp add: m dispatch_friends getFriendLobbies_def finish_Fatal)
  moreover have "InviteFriend client ctx (InviteFriendRequest a) = Inl err \<longrightarrow>
            main e sp (''invite'' # a # rest) =
              \<lparr>prints = [log_line e (''could not invite friend: '' @ err)],
               requests = [InviteFriendRequest a], exit_code = 1\<rparr>"
    by (simp add: m dispatch_invite inviteFriend_def finish_Fatal)
  moreover have "GetVPNStatus client ctx GetVPNStatusRequest = Inl err \<longrightarrow>
            main e sp (''vpn-status'' # rest) =
              \<lparr>prints = [log_line e (''could not get VPN status: '' @ err)],
               requests = [GetVPNStatusRequest], exit_code = 1\<rparr>"
    by (simp add: m dispatch_vpn_status getVPNStatus_def finish_Fatal)
  moreover have "GetVPNRoutingTable client ctx GetVPNRoutingTableRequest = Inl err \<longrightarrow>
            main e sp (''vpn-routes'' # rest) =
              \<lparr>prints = [log_line e (''could not get VPN routing table: '' @ err)],
               requests = [GetVPNRoutingTableRequest], exit_code = 1\<rparr>"
    by (simp add: m dispatch_vpn_routes getVPNRoutingTable_def finish_Fatal)
  moreover have "stdout_of [log_line e msg] = []" by simp
  moreover have "\<exists>s. log_line e msg = Stderr (timestamp e @ '' '' @ msg @ s)"
    by (simp add: log_line_def)
  ultimately show ?thesis by blast
qed

text \<open>C6 at the service that is down, for a command without and one with an argument.\<close>

theorem remote_error_is_fatal_witness:
  "main (env_of down) sock [''leave''] =
     \<lparr>prints = [Stderr (''2025/01/01 00:00:00 could not leave lobby: '' @
                         ''rpc error: code = Unavailable'' @ [CHR 0x0A])],
      requests = [LeaveLobbyRequest], exit_code = 1\<rparr>
   \<and> main (env_of down) sock [''join'', ''L123''] =
     \<lparr>prints = [Stderr (''2025/01/01 00:00:00 could not join lobby: '' @
                         ''rpc error: code = Unavailable'' @ [CHR 0x0A])],
      requests = [JoinLobbyRequest ''L123''], exit_code = 1\<rparr>
   \<and> stdout_of (prints (main (env_of down) sock [''join'', ''L123''])) = []"
  using remote_error_is_fatal
          [OF connected, of down "''rpc error: code = Unavailable''" sock "[]" "''L123''"]
  by (simp add: down_def log_line_def nl_def)

subsection \<open>C7: a reply that says no is still a reply\<close>

text \<open>
  Claim C7. Whenever the response of the remote call is received, the process exits with
  status 0, for each of the eight commands. For the four commands whose response carries a
  success flag (\<^verbatim>\<open>create\<close>, \<^verbatim>\<open>join\<close>, \<^verbatim>\<open>leave\<close>, \<^verbatim>\<open>invite\<close>) the flag is only printed:
  the output is the usual line with \<^verbatim>\<open>true\<close> or \<^verbatim>\<open>false\<close> in it, and the status is 0 for
  both values.
\<close>

theorem semantic_failure_is_rendered:
  assumes "NewClient e (''unix:'' @ sp) = Inr client"
  shows "(CreateLobby client ctx CreateLobbyRequest = Inr r1 \<longrightarrow>
            main e sp (''create'' # rest) =
              \<lparr>prints = [Stdout (''Success: '' @
                                  (if create_Success r1 then ''true'' else ''false'') @
                                  '', Lobby ID: '' @ create_LobbyId r1 @ [CHR 0x0A])],
               requests = [CreateLobbyRequest], exit_code = 0\<rparr>)
       \<and> (JoinLobby client ctx (JoinLobbyRequest a) = Inr r2 \<longrightarrow>
            main e sp (''join'' # a # rest) =
              \<lparr>prints = [Stdout (''Success: '' @
                                  (if join_Success r2 then ''true'' else ''false'') @
                                  '', Message: '' @ join_Message r2 @ [CHR 0x0A])],
               requests = [JoinLobbyRequest a], exit_code = 0\<rparr>)
       \<and> (LeaveLobby client ctx LeaveLobbyRequest = Inr r3 \<longrightarrow>
            main e sp (''leave'' # rest) =
              \<lparr>prints = [Stdout (''Success: '' @
                                  (if leave_Success r3 then ''true'' else ''false'') @
                                  [CHR 0x0A])],
               requests = [LeaveLobbyRequest], exit_code = 0\<rparr>)
       \<and> (InviteFriend client ctx (InviteFriendRequest a) = Inr r4 \<longrightarrow>
            main e sp (''invite'' # a # rest) =
              \<lparr>prints = [Stdout (''Success: '' @
                                  (if invite_Success r4 then ''true'' else ''false'') @
                                  [CHR 0x0A])],
               requests = [InviteFriendRequest a], exit_code = 0\<rparr>)
       \<and> (GetLobbyInfo client ctx GetLobbyInfoRequest = Inr r5 \<longrightarrow>
            exit_code (main e sp (''info'' # rest)) = 0)
       \<and> (GetFriendLobbies client ctx GetFriendLobbiesRequest = Inr r6 \<longrightarrow>
            exit_code (main e sp (''friends'' # rest)) = 0)
       \<and> (GetVPNStatus client ctx GetVPNStatusRequest = Inr r7 \<longrightarrow>
            exit_code (main e sp (''vpn-status'' # rest)) = 0)
       \<and> (GetVPNRoutingTable client ctx GetVPNRoutingTableRequest = Inr r8 \<longrightarrow>
            exit_code (main e sp (''vpn-routes'' # rest)) = 0)"
proof -
  note m = main_connected [OF assms]
  have "CreateLobby client ctx CreateLobbyRequest = Inr r1 \<longrightarrow>
            main e sp (''create'' # rest) =
              \<lparr>prints = [Stdout (''Success: '' @
                                  (if create_Success r1 then ''true'' else ''false'') @
                                  '', Lobby ID: '' @ create_LobbyId r1 @ [CHR 0x0A])],
               requests = [CreateLobbyRequest], exit_code = 0\<rparr>"
    by (simp add: m dispatch_create createLobby_def finish_def Printf_def fmt_bool_def nl_def)
  moreover have "JoinLobby client ctx (JoinLobbyRequest a) = Inr r2 \<longrightarrow>
            main e sp (''join'' # a # rest) =
              \<lparr>prints = [Stdout (''Success: '' @
                                  (if join_Success r2 then ''true'' else ''false'') @
                                  '', Message: '' @ join_Message r2 @ [CHR 0x0A])],
               requests = [JoinLobbyRequest a], exit_code = 0\<rparr>"
    by (simp add: m dispatch_join joinLobby_def finish_def Printf_def fmt_bool_def nl_def)
  moreover have "LeaveLobby client ctx LeaveLobbyRequest = Inr r3 \<longrightarrow>
            main e sp (''leave'' # rest) =
              \<lparr>prints = [Stdout (''Success: '' @
                                  (if leave_Success r3 then ''true'' else ''false'') @
                                  [CHR 0x0A])],
               requests = [LeaveLobbyRequest], exit_code = 0\<rparr>"
    by (simp add: m dispatch_leave leaveLobby_def finish_def Printf_def fmt_bool_def nl_def)
  moreover have "InviteFriend client ctx (InviteFriendRequest a) = Inr r4 \<longrightarrow>
            main e sp (''invite'' # a # rest) =
              \<lparr>prints = [Stdout (''Success: '' @
                                  (if invite_Success r4 then ''true'' else ''false'') @
                                  [CHR 0x0A])],
               requests = [InviteFriendRequest a], exit_code = 0\<rparr>"
    by (simp add: m dispatch_invite inviteFriend_def finish_def Printf_def fmt_bool_def nl_def)
  moreover have "GetLobbyInfo client ctx GetLobbyInfoRequest = Inr r5 \<longrightarrow>
            exit_code (main e sp (''info'' # rest)) = 0"
    by (simp add: m dispatch_info getLobbyInfo_def finish_def)
  moreover have "GetFriendLobbies client ctx GetFriendLobbiesRequest = Inr r6 \<longrightarrow>
            exit_code (main e sp (''friends'' # rest)) = 0"
    by (simp add: m dispatch_friends getFriendLobbies_def finish_def)
  moreover have "GetVPNStatus client ctx GetVPNStatusRequest = Inr r7 \<longrightarrow>
            exit_code (main e sp (''vpn-status'' # rest)) = 0"
    by (simp add: m dispatch_vpn_status getVPNStatus_def finish_def)
  moreover have "GetVPNRoutingTable client ctx GetVPNRoutingTableRequest = Inr r8 \<longrightarrow>
            exit_code (main e sp (''vpn-routes'' # rest)) = 0"
    by (simp add: m dispatch_vpn_routes getVPNRoutingTable_def finish_def)
  ultimately show ?thesis by blast
qed

text \<open>C7 at a join that the service refuses and an invite that it refuses.\<close>

theorem semantic_failure_is_rendered_witness:
  "main (env_of refusing) sock [''join'', ''L123''] =
     \<lparr>prints = [Stdout (''Success: false, Message: lobby is full'' @ [CHR 0x0A])],
      requests = [JoinLobbyRequest ''L123''], exit_code = 0\<rparr>
   \<and> main (env_of refusing) sock [''invite'', ''76561198000000002''] =
     \<lparr>prints = [Stdout (''Success: false'' @ [CHR 0x0A])],
      requests = [InviteFriendRequest ''76561198000000002''], exit_code = 0\<rparr>
   \<and> exit_code (main (env_of refusing) sock [''info'']) = 0"
proof -
  have j: "JoinLobby refusing ctx (JoinLobbyRequest ''L123'') =
             Inr \<lparr>join_Success = False, join_Message = ''lobby is full''\<rparr>"
    by (simp add: refusing_def)
  have i: "InviteFriend refusing ctx (InviteFriendRequest ''76561198000000002'') =
             Inr \<lparr>invite_Success = False\<rparr>"
    by (simp add: refusing_def)
  have l: "GetLobbyInfo refusing ctx GetLobbyInfoRequest =
             Inr \<lparr>info_IsInLobby = False, info_LobbyId = ''L9'', info_Members = [alice]\<rparr>"
    by (simp add: refusing_def)
  have c: "NewClient (env_of refusing) (''unix:'' @ sock) = Inr refusing"
    by simp
  from semantic_failure_is_rendered [OF c, where a = "''L123''" and rest = "[]"]
       semantic_failure_is_rendered [OF c, where a = "''76561198000000002''" and rest = "[]"]
       j i l
  show ?thesis by simp
qed

subsection \<open>C8: the deadline\<close>

text \<open>
  Claim C8 speaks of wall-clock time: a call that does not return within five seconds is
  ended by the runtime. The embedding has no clock. What it does record is that every
  handler is given the one context \<open>ctx\<close>, built with a timeout of five seconds, and hands it
  to its only call; a call that the runtime ends comes back as an error, and an error is
  fatal.
\<close>

subsection \<open>C9: commands and requests\<close>

text \<open>
  Claim C9 as the program has it. With the client handle created and a further argument
  \<open>a\<close> present, the dispatcher sends exactly one request for each of the eight commands
  \<^verbatim>\<open>create\<close>, \<^verbatim>\<open>join\<close>, \<^verbatim>\<open>leave\<close>, \<^verbatim>\<open>info\<close>, \<^verbatim>\<open>friends\<close>, \<^verbatim>\<open>invite\<close>, \<^verbatim>\<open>vpn-status\<close>
  and \<^verbatim>\<open>vpn-routes\<close>, each its own request variant, whatever the service replies, and no
  request for any other command. The commands that lead to a request are exactly these
  eight: there are eight request and response pairs, not nine.
\<close>

theorem dispatch_requests:
  assumes "NewClient e (''unix:'' @ sp) = Inr client"
  shows "requests (main e sp (c # a # rest)) =
           (if c = ''create'' then [CreateLobbyRequest]
            else if c = ''join'' then [JoinLobbyRequest a]
            else if c = ''leave'' then [LeaveLobbyRequest]
            else if c = ''info'' then [GetLobbyInfoRequest]
            else if c = ''friends'' then [GetFriendLobbiesRequest]
            else if c = ''invite'' then [InviteFriendRequest a]
            else if c = ''vpn-status'' then [GetVPNStatusRequest]
            else if c = ''vpn-routes'' then [GetVPNRoutingTableRequest]
            else [])
       \<and> {c. requests (main e sp (c # a # rest)) \<noteq> []} =
           set [''create'', ''join'', ''leave'', ''info'', ''friends'', ''invite'',
                ''vpn-status'', ''vpn-routes'']
       \<and> card {c. requests (main e sp (c # a # rest)) \<noteq> []} = 8"
proof -
  note r = requests_main [OF assms, of c a rest]
  note s = recognized_commands [OF assms, of a rest]
  have k: "card {c. requests (main e sp (c # a # rest)) \<noteq> []} = 8"
    by (simp only: s card_commands)
  from r s k show ?thesis
    by (intro conjI)
qed

text \<open>C9 at the command \<^verbatim>\<open>invite\<close> against a service that is down.\<close>

theorem dispatch_requests_witness:
  "requests (main (env_of down) sock [''invite'', ''76561198000000001'']) =
     [InviteFriendRequest ''76561198000000001'']
   \<and> card {c. requests (main (env_of down) sock [c, ''76561198000000001'']) \<noteq> []} = 8"
  using dispatch_requests
          [OF connected, of down sock "''invite''" "''76561198000000001''" "[]"]
  by simp

text \<open>
  C9 as stated asks for nine pairs, one per command: the commands on which the program
  sends a request are not nine.
\<close>

theorem nine_commands_counterexample:
  "card {c. requests (main (env_of down) sock [c, ''x'']) \<noteq> []} \<noteq> 9"
proof -
  from recognized_commands [OF connected, of down sock "''x''" "[]"]
  have "card {c. requests (main (env_of down) sock [c, ''x'']) \<noteq> []} = 8"
    by (simp only: card_commands)
  then show ?thesis by simp
qed

subsection \<open>C10: empty lists\<close>

text \<open>
  Claim C10. When the list of friend lobbies in the response is empty, the output of
  \<^verbatim>\<open>friends\<close> is the header line \<^verbatim>\<open>Friend Lobbies:\<close> alone; when the list of routes is
  empty, the output of \<^verbatim>\<open>vpn-routes\<close> is the header line \<^verbatim>\<open>Routing Table:\<close> alone. In
  both cases one request was sent and the process exits with status 0.
\<close>

theorem empty_lists_rendering:
  assumes "NewClient e (''unix:'' @ sp) = Inr client"
  shows "(GetFriendLobbies client ctx GetFriendLobbiesRequest = Inr r \<and>
          friends_Lobbies r = [] \<longrightarrow>
            main e sp (''friends'' # rest) =
              \<lparr>prints = [Stdout (''Friend Lobbies:'' @ [CHR 0x0A])],
               requests = [GetFriendLobbiesRequest], exit_code = 0\<rparr>)
       \<and> (GetVPNRoutingTable client ctx GetVPNRoutingTableRequest = Inr t \<and>
          routes_Routes t = [] \<longrightarrow>
            main e sp (''vpn-routes'' # rest) =
              \<lparr>prints = [Stdout (''Routing Table:'' @ [CHR 0x0A])],
               requests = [GetVPNRoutingTableRequest], exit_code = 0\<rparr>)"
  using assms
  by (simp add: main_connected dispatch_friends dispatch_vpn_routes getFriendLobbies_def
      getVPNRoutingTable_def finish_def Println_def nl_def)

text \<open>C10 at the service whose lists are empty.\<close>

theorem empty_lists_rendering_witness:
  "main (env_of refusing) sock [''friends''] =
     \<lparr>prints = [Stdout (''Friend Lobbies:'' @ [CHR 0x0A])],
      requests = [GetFriendLobbiesRequest], exit_code = 0\<rparr>
   \<and> main (env_of refusing) sock [''vpn-routes''] =
     \<lparr>prints = [Stdout (''Routing Table:'' @ [CHR 0x0A])],
      requests = [GetVPNRoutingTableRequest], exit_code = 0\<rparr>"
proof -
  have f: "GetFriendLobbies refusing ctx GetFriendLobbiesRequest =
             Inr \<lparr>friends_Lobbies = []\<rparr>"
    by (simp add: refusing_def)
  have t: "GetVPNRoutingTable refusing ctx GetVPNRoutingTableRequest =
             Inr \<lparr>routes_Routes = []\<rparr>"
    by (simp add: refusing_def)
  have c: "NewClient (env_of refusing) (''unix:'' @ sock) = Inr refusing"
    by simp
  from empty_lists_rendering
         [OF c, where r = "\<lparr>friends_Lobbies = []\<rparr>" and t = "\<lparr>routes_Routes = []\<rparr>"
            and rest = "[]"] f t
  show ?thesis by simp
qed

end
